theory Spec2Isabelle
  imports Main "HOL-Library.Multiset" "HOL-Library.Char_ord" "HOL-Library.List_Lexorder"
begin

section \<open>JavaScript values\<close>

text \<open>
  The rows that the database driver hands back, the objects the model methods build and the
  JSON a handler sends are all JavaScript objects. An object is a list of key/value pairs;
  reading a property that the object does not have gives \<open>undefined\<close>, as in JavaScript.
  Timestamps come back from the driver as dates, SQL NULL as \<open>null\<close>.
\<close>

datatype jsval =
    JUndefined
  | JNull
  | JBool bool
  | JNum nat
  | JStr string
  | JDate nat
  | JObj "(string \<times> jsval) list"

text \<open>The truth value JavaScript gives a value in \<open>if (v)\<close> and \<open>!v\<close>.\<close>

fun truthy :: "jsval \<Rightarrow> bool" where
  "truthy JUndefined = False"
| "truthy JNull = False"
| "truthy (JBool b) = b"
| "truthy (JNum n) = (n \<noteq> 0)"
| "truthy (JStr s) = (s \<noteq> [])"
| "truthy (JDate t) = True"
| "truthy (JObj kvs) = True"

text \<open>
  Property access \<open>o.k\<close>. The source only dereferences rows it has tested to be present,
  so the access on \<open>undefined\<close> (a TypeError in JavaScript) is never reached.
\<close>

fun field :: "jsval \<Rightarrow> string \<Rightarrow> jsval" where
  "field (JObj kvs) k = (case map_of kvs k of None \<Rightarrow> JUndefined | Some v \<Rightarrow> v)"
| "field v k = JUndefined"

text \<open>\<open>result.rows[0]\<close>: reading index 0 of an empty array gives \<open>undefined\<close>.\<close>

fun rows0 :: "jsval list \<Rightarrow> jsval" where
  "rows0 [] = JUndefined"
| "rows0 (r # rs) = r"

text \<open>A nullable timestamp column as the driver returns it.\<close>

fun js_timestamp :: "nat option \<Rightarrow> jsval" where
  "js_timestamp None = JNull"
| "js_timestamp (Some t) = JDate t"

section \<open>Errors\<close>

text \<open>
  \<open>ExpressError message status\<close> is the application's own error class. A reference to an
  identifier that no scope binds throws a \<open>ReferenceError\<close>. \<open>UniqueViolation\<close> is the
  error the database driver raises when an INSERT breaks a uniqueness constraint; the model
  methods do not catch it, so it reaches the caller as it is. \<open>LibraryError\<close> stands for an
  error thrown by the hashing or the token library.
\<close>

datatype error =
    ExpressError string nat
  | ReferenceError string
  | UniqueViolation string
  | LibraryError string

section \<open>The relational store\<close>

text \<open>
  The five columns a registration supplies are also the fields of the request body of
  \<open>POST /register\<close>; a row of \<open>users\<close> adds the two timestamps. In a request body
  \<open>password\<close> is the plain text, in a row it is the stored hash.
\<close>

record user_fields =
  username :: string
  password :: string
  first_name :: string
  last_name :: string
  phone :: string

record user_row = user_fields +
  join_at :: nat
  last_login_at :: "nat option"

record message_row =
  msg_id :: nat
  from_username :: string
  to_username :: string
  body :: string
  sent_at :: nat
  read_at :: "nat option"

record db =
  users :: "user_row list"
  messages :: "message_row list"

text \<open>
  Modelled from the spec: the schema and the database module are not among the sources. The
  spec gives \<open>users(username PK, password, first_name, last_name, phone, join_at,
  last_login_at)\<close> with the uniqueness of \<open>username\<close> enforced by the store. An INSERT of a
  row whose key is already present is refused and changes nothing; otherwise the row is
  added and the \<open>RETURNING username\<close> clause yields one result row.
\<close>

definition insert_user :: "user_row \<Rightarrow> db \<Rightarrow> (error + jsval list) \<times> db" where
  "insert_user r s =
     (if username r \<in> set (map username (users s))
      then (Inl (UniqueViolation ''users_pkey''), s)
      else (Inr [JObj [(''username'', JStr (username r))]], s\<lparr>users := users s @ [r]\<rparr>))"

text \<open>The primary key of \<open>users\<close> as a property of a store.\<close>

definition users_pk :: "db \<Rightarrow> bool" where
  "users_pk s = distinct (map username (users s))"

section \<open>Configuration and libraries\<close>

text \<open>
  The configuration constants and the two libraries are not part of the sources; they are
  parameters of the model. \<open>bcrypt_hash\<close> is the library's hash call (with whatever salt it
  draws), \<open>bcrypt_compare password hash\<close> its comparison of a string with a hash string,
  \<open>jwt_sign payload key\<close> the token signature, which may throw. \<open>globalThis\<close> is the
  global object, where JavaScript looks an identifier up that no enclosing scope declares.
\<close>

record env =
  bcrypt_hash :: "string \<Rightarrow> nat \<Rightarrow> string"
  bcrypt_compare :: "string \<Rightarrow> string \<Rightarrow> bool"
  jwt_sign :: "jsval \<Rightarrow> string \<Rightarrow> error + string"
  SECRET_KEY :: string
  BCRYPT_WORK_FACTOR :: nat
  globalThis :: "string \<Rightarrow> jsval option"

text \<open>
  The call \<open>bcrypt.compare(data, hash)\<close> as the code makes it, with whatever values it
  holds. The library checks its arguments before it compares: the promise is rejected with
  an Error when an argument is missing (\<open>undefined\<close> or \<open>null\<close>) and when one of them
  is not a string; only two strings are compared. A JSON request body holds no Buffer, the
  one other kind of \<open>data\<close> the library takes.
\<close>

definition bcrypt_compare_promise :: "env \<Rightarrow> jsval \<Rightarrow> jsval \<Rightarrow> error + bool" where
  "bcrypt_compare_promise E data hash =
     (if data = JUndefined \<or> data = JNull \<or> hash = JUndefined \<or> hash = JNull
      then Inl (LibraryError ''data and hash arguments required'')
      else case (data, hash) of
             (JStr d, JStr h) \<Rightarrow> Inr (bcrypt_compare E d h)
           | other \<Rightarrow> Inl (LibraryError ''data and hash must be strings''))"

section \<open>The User model\<close>

text \<open>
  The static methods of the class \<open>User\<close>, under their own names, except that
  \<open>User.all\<close> is \<open>all_users\<close>. Every method that writes takes the reading \<open>now\<close>
  of the store's clock (\<open>current_timestamp\<close>) at its statement and returns the store
  after the statement, also when it throws. A rejected promise is the \<open>Inl\<close> of the
  result.
\<close>

definition register :: "env \<Rightarrow> nat \<Rightarrow> db \<Rightarrow> user_fields \<Rightarrow> (error + jsval) \<times> db" where
  "register E now s new_user =
     (let hashedPassword = bcrypt_hash E (password new_user) (BCRYPT_WORK_FACTOR E) in
      case insert_user
             \<lparr>username = username new_user, password = hashedPassword,
              first_name = first_name new_user, last_name = last_name new_user,
              phone = phone new_user, join_at = now, last_login_at = None\<rparr> s of
        (Inl err, s') \<Rightarrow> (Inl err, s')
      | (Inr rows, s') \<Rightarrow> (Inr (rows0 rows), s'))"

text \<open>
  \<open>User.authenticate\<close>. The password is whatever value the caller hands over: the
  handler of \<open>POST /login\<close> passes \<open>req.body.password\<close> on unchecked, so it may be
  missing or not a string. A rejection of \<open>bcrypt.compare\<close> is not caught here and reaches
  the caller as it is.
\<close>

definition authenticate :: "env \<Rightarrow> db \<Rightarrow> string \<Rightarrow> jsval \<Rightarrow> error + bool" where
  "authenticate E s uname pw =
     (let result = [JObj [(''password'', JStr (password u))]. u \<leftarrow> users s, username u = uname];
          user = rows0 result
      in if truthy user then
           (case bcrypt_compare_promise E pw (field user ''password'') of
              Inl err \<Rightarrow> Inl err
            | Inr success \<Rightarrow>
                if success then Inr True
                else Inl (ExpressError ''Invalid username/password'' 400))
         else Inl (ExpressError ''Invalid username/password'' 400))"

definition updateLoginTimestamp :: "nat \<Rightarrow> db \<Rightarrow> string \<Rightarrow> (error + unit) \<times> db" where
  "updateLoginTimestamp now s uname =
     (let s' = s\<lparr>users := map (\<lambda>u. if username u = uname
                                    then u\<lparr>last_login_at := Some now\<rparr> else u) (users s)\<rparr>;
          result = [JObj [(''username'', JStr (username u))]. u \<leftarrow> users s, username u = uname]
      in if \<not> truthy (rows0 result)
         then (Inl (ExpressError (''There is no user with username: '' @ uname) 404), s')
         else (Inr (), s'))"

text \<open>
  \<open>ORDER BY first_name\<close>: the collation is taken to be the character order; rows with
  equal keys stay in table order.
\<close>

definition all_users :: "db \<Rightarrow> jsval list" where
  "all_users s =
     [JObj [(''first_name'', JStr (first_name u)),
            (''last_name'', JStr (last_name u)),
            (''phone'', JStr (phone u))]. u \<leftarrow> sort_key first_name (users s)]"

definition get :: "db \<Rightarrow> string \<Rightarrow> error + jsval" where
  "get s uname =
     (let result = [JObj [(''username'', JStr (username u)),
                          (''first_name'', JStr (first_name u)),
                          (''last_name'', JStr (last_name u)),
                          (''phone'', JStr (phone u)),
                          (''join_at'', JDate (join_at u)),
                          (''last_login_at'', js_timestamp (last_login_at u))].
                     u \<leftarrow> users s, username u = uname]
      in if length result = 0
         then Inl (ExpressError (''There is no user with username '' @ uname) 404)
         else Inr (rows0 result))"

definition messagesFrom :: "db \<Rightarrow> string \<Rightarrow> error + jsval" where
  "messagesFrom s uname =
     (let result = [JObj [(''id'', JNum (msg_id m)),
                          (''from_username'', JStr (from_username m)),
                          (''from_first_name'', JStr (first_name u)),
                          (''from_last_name'', JStr (last_name u)),
                          (''from_phone'', JStr (phone u)),
                          (''body'', JStr (body m)),
                          (''sent_at'', JDate (sent_at m)),
                          (''read_at'', js_timestamp (read_at m))].
                     m \<leftarrow> messages s, u \<leftarrow> users s,
                     from_username m = username u, from_username m = uname];
          m = rows0 result
      in if \<not> truthy m
         then Inl (ExpressError (''There are no messages from '' @ uname) 404)
         else Inr (JObj [(''id'', field m ''id''),
                         (''from_user'', JObj [(''username'', field m ''from_username''),
                                               (''first_name'', field m ''from_first_name''),
                                               (''last_name'', field m ''from_last_name''),
                                               (''phone'', field m ''from_phone'')]),
                         (''body'', field m ''body''),
                         (''sent_at'', field m ''sent_at''),
                         (''read_at'', field m ''read_at'')]))"

definition messagesTo :: "db \<Rightarrow> string \<Rightarrow> error + jsval" where
  "messagesTo s uname =
     (let result = [JObj [(''id'', JNum (msg_id m)),
                          (''to_username'', JStr (to_username m)),
                          (''to_first_name'', JStr (first_name u)),
                          (''to_last_name'', JStr (last_name u)),
                          (''to_phone'', JStr (phone u)),
                          (''body'', JStr (body m)),
                          (''sent_at'', JDate (sent_at m)),
                          (''read_at'', js_timestamp (read_at m))].
                     m \<leftarrow> messages s, u \<leftarrow> users s,
                     to_username m = username u, to_username m = uname];
          m = rows0 result
      in if \<not> truthy m
         then Inl (ExpressError (''There are no messages to user with username: '' @ uname) 404)
         else Inr (JObj [(''id'', field m ''id''),
                         (''to_user'', JObj [(''username'', field m ''to_username''),
                                             (''first_name'', field m ''to_first_name''),
                                             (''last_name'', field m ''to_last_name''),
                                             (''phone'', field m ''phone'')]),
                         (''body'', field m ''body''),
                         (''sent_at'', field m ''sent_at''),
                         (''read_at'', field m ''read_at'')]))"

section \<open>The Message model\<close>

text \<open>
  Modelled from the spec: the Message class is not among the sources. The spec says of
  \<open>get(id)\<close>: it returns the full message with both \<open>from_user\<close> and \<open>to_user\<close>
  expanded to \<open>{username, first_name, last_name, phone}\<close> via a join, and fails with a
  NotFoundError (404) if the id does not exist; who may view the message is checked by the
  caller, not here. The text of the error message is not given by the spec.
\<close>

definition Message_get :: "db \<Rightarrow> nat \<Rightarrow> error + jsval" where
  "Message_get s i =
     (let result = [JObj [(''id'', JNum (msg_id m)),
                          (''from_user'', JObj [(''username'', JStr (username f)),
                                               (''first_name'', JStr (first_name f)),
                                               (''last_name'', JStr (last_name f)),
                                               (''phone'', JStr (phone f))]),
                          (''to_user'', JObj [(''username'', JStr (username t)),
                                             (''first_name'', JStr (first_name t)),
                                             (''last_name'', JStr (last_name t)),
                                             (''phone'', JStr (phone t))]),
                          (''body'', JStr (body m)),
                          (''sent_at'', JDate (sent_at m)),
                          (''read_at'', js_timestamp (read_at m))].
                     m \<leftarrow> messages s, f \<leftarrow> users s, t \<leftarrow> users s,
                     from_username m = username f, to_username m = username t, msg_id m = i]
      in case result of
           [] \<Rightarrow> Inl (ExpressError ''NotFoundError'' 404)
         | r # rs \<Rightarrow> Inr r)"

section \<open>The request handlers\<close>

text \<open>
  A handler answers by \<open>res.json(v)\<close> or hands an error to \<open>next(err)\<close>; a handler that
  returns without doing either leaves the request unanswered.
\<close>

datatype response = ResJson jsval | NextErr error | NoResponse

text \<open>
  A request to the message routes, as the handler sees it once the \<open>ensureLoggedIn\<close>
  middleware (not among the sources) has let it pass: \<open>req.params.id\<close> and the
  authenticated principal \<open>req.user.username\<close>.
\<close>

record msg_request =
  params_id :: nat
  user_username :: string

text \<open>\<open>router.get("/:id")\<close> of the message routes.\<close>

definition route_get_id :: "db \<Rightarrow> msg_request \<Rightarrow> response" where
  "route_get_id s req =
     (case Message_get s (params_id req) of
        Inl err \<Rightarrow> NextErr err
      | Inr message \<Rightarrow> ResJson (JObj [(''message'', message)]))"

text \<open>\<open>router.post("/:id/read")\<close>: the body of the \<open>try\<close> block is empty.\<close>

definition route_post_id_read :: "db \<Rightarrow> msg_request \<Rightarrow> response \<times> db" where
  "route_post_id_read s req = (NoResponse, s)"

text \<open>
  \<open>router.post("/register")\<close>, with the clock readings of its two statements. The handler
  declares no \<open>username\<close>, nor does the module, so the shorthand \<open>{username}\<close> reads the
  global object and throws a ReferenceError when it has no such property. The parameter of
  the UPDATE is \<open>result.username\<close>, which is the string that \<open>register\<close> returned;
  the last branch, for a \<open>result\<close> without such a string, where the UPDATE finds no row,
  is never taken.
\<close>

definition route_post_register :: "env \<Rightarrow> nat \<Rightarrow> nat \<Rightarrow> db \<Rightarrow> user_fields \<Rightarrow> response \<times> db" where
  "route_post_register E t_insert t_update s req_body =
     (case register E t_insert s req_body of
        (Inl err, s1) \<Rightarrow> (NextErr err, s1)
      | (Inr result, s1) \<Rightarrow>
          (case globalThis E ''username'' of
             None \<Rightarrow> (NextErr (ReferenceError ''username is not defined''), s1)
           | Some v \<Rightarrow>
               (case jwt_sign E (JObj [(''username'', v)]) (SECRET_KEY E) of
                  Inl err \<Rightarrow> (NextErr err, s1)
                | Inr token \<Rightarrow>
                    (case field result ''username'' of
                       JStr uname \<Rightarrow>
                         (case updateLoginTimestamp t_update s1 uname of
                            (Inl err, s2) \<Rightarrow> (NextErr err, s2)
                          | (Inr u, s2) \<Rightarrow> (ResJson (JObj [(''token'', JStr token)]), s2))
                     | other \<Rightarrow>
                         (NextErr (ExpressError ''There is no user with username: undefined'' 404),
                          s1)))))"

section \<open>Sample data\<close>

text \<open>A store with three users and one message, from alice to bob, not yet read.\<close>

definition alice :: user_row where
  "alice = \<lparr>username = ''alice'', password = ''$2b$12$aaaa'', first_name = ''Alice'',
            last_name = ''Adams'', phone = ''+14150000001'', join_at = 100,
            last_login_at = None\<rparr>"

definition bob :: user_row where
  "bob = \<lparr>username = ''bob'', password = ''$2b$12$bbbb'', first_name = ''Bob'',
          last_name = ''Brown'', phone = ''+14150000002'', join_at = 200,
          last_login_at = None\<rparr>"

definition carol :: user_row where
  "carol = \<lparr>username = ''carol'', password = ''$2b$12$cccc'', first_name = ''Carol'',
            last_name = ''Clark'', phone = ''+14150000003'', join_at = 300,
            last_login_at = None\<rparr>"

definition hello :: message_row where
  "hello = \<lparr>msg_id = 1, from_username = ''alice'', to_username = ''bob'',
            body = ''hello'', sent_at = 400, read_at = None\<rparr>"

definition sample_db :: db where
  "sample_db = \<lparr>users = [carol, alice, bob], messages = [hello]\<rparr>"

definition empty_db :: db where
  "empty_db = \<lparr>users = [], messages = []\<rparr>"

text \<open>
  A stand-in for the libraries, used only to run the handlers on the sample data: the
  global object has no property \<open>username\<close>, as in a Node process that nothing has
  tampered with.
\<close>

definition sample_env :: env where
  "sample_env =
     \<lparr>bcrypt_hash = (\<lambda>pw cost. ''$2b$'' @ pw),
      bcrypt_compare = (\<lambda>pw h. h = ''$2b$'' @ pw),
      jwt_sign = (\<lambda>payload key. Inr ''header.payload.signature''),
      SECRET_KEY = ''secret'',
      BCRYPT_WORK_FACTOR = 12,
      globalThis = (\<lambda>k. None)\<rparr>"

text \<open>
  A process in which some other code has set a global \<open>username\<close> and in which the
  token library refuses to sign.
\<close>

definition failing_sign_env :: env where
  "failing_sign_env =
     sample_env\<lparr>jwt_sign := (\<lambda>payload key. Inl (LibraryError ''secretOrPrivateKey must have a value'')),
                globalThis := (\<lambda>k. if k = ''username'' then Some (JStr ''mallory'') else None)\<rparr>"

definition new_dave :: user_fields where
  "new_dave = \<lparr>username = ''dave'', password = ''pw'', first_name = ''Dave'',
               last_name = ''Dunn'', phone = ''+14150000004''\<rparr>"

section \<open>Queries as searches\<close>

text \<open>
  A SELECT with a WHERE clause is a filter followed by a projection; the first row of its
  result is the projection of the first row of the table that satisfies the clause.
\<close>

lemma select_where:
  "concat (map (\<lambda>u. if P u then [f u] else []) xs) = map f (filter P xs)"
  by (induction xs) simp_all

lemma rows0_map_filter:
  "rows0 (map f (filter P xs)) = (case find P xs of None \<Rightarrow> JUndefined | Some u \<Rightarrow> f u)"
  by (induction xs) simp_all

lemma filter_Nil_find:
  "(filter P xs = []) = (find P xs = None)"
  by (induction xs) simp_all

lemma find_username_Some:
  "find (\<lambda>u. username u = uname) xs = Some r \<Longrightarrow> r \<in> set xs \<and> username r = uname"
  by (induction xs) (auto split: if_splits)

lemma find_username_None:
  "(find (\<lambda>u. username u = uname) xs = None) = (uname \<notin> set (map username xs))"
  by (auto simp: find_None_iff)

lemma find_after_update:
  "find (\<lambda>u. username u = uname)
     (map (\<lambda>u. if username u = uname then u\<lparr>last_login_at := Some t\<rparr> else u) xs)
   = map_option (\<lambda>u. u\<lparr>last_login_at := Some t\<rparr>) (find (\<lambda>u. username u = uname) xs)"
  by (induction xs) simp_all

lemma update_no_match:
  "uname \<notin> set (map username xs) \<Longrightarrow>
   map (\<lambda>u. if username u = uname then u\<lparr>last_login_at := Some t\<rparr> else u) xs = xs"
  by (induction xs) auto

lemma find_append_new:
  "uname \<notin> set (map username xs) \<Longrightarrow> username r = uname \<Longrightarrow>
   find (\<lambda>u. username u = uname) (xs @ [r]) = Some r"
  by (induction xs) auto


lemma get_find:
  "get s uname =
     (case find (\<lambda>u. username u = uname) (users s) of
        None \<Rightarrow> Inl (ExpressError (''There is no user with username '' @ uname) 404)
      | Some u \<Rightarrow> Inr (JObj [(''username'', JStr (username u)),
                          (''first_name'', JStr (first_name u)),
                          (''last_name'', JStr (last_name u)),
                          (''phone'', JStr (phone u)),
                          (''join_at'', JDate (join_at u)),
                          (''last_login_at'', js_timestamp (last_login_at u))]))"
  unfolding get_def Let_def select_where
  by (simp add: filter_Nil_find rows0_map_filter split: option.splits)

lemma updateLoginTimestamp_find:
  "updateLoginTimestamp t s uname =
     (case find (\<lambda>u. username u = uname) (users s) of
        None \<Rightarrow> (Inl (ExpressError (''There is no user with username: '' @ uname) 404), s)
      | Some u \<Rightarrow> (Inr (),
           s\<lparr>users := map (\<lambda>u. if username u = uname then u\<lparr>last_login_at := Some t\<rparr> else u)
                          (users s)\<rparr>))"
  unfolding updateLoginTimestamp_def Let_def select_where
  by (auto simp add: rows0_map_filter find_username_None update_no_match
        dest: find_username_Some split: option.splits)


section \<open>Authentication\<close>

lemma authenticate_find:
  "authenticate E s uname pw =
     (case find (\<lambda>u. username u = uname) (users s) of
        None \<Rightarrow> Inl (ExpressError ''Invalid username/password'' 400)
      | Some u \<Rightarrow>
          (case bcrypt_compare_promise E pw (JStr (password u)) of
             Inl err \<Rightarrow> Inl err
           | Inr success \<Rightarrow> if success then Inr True
                            else Inl (ExpressError ''Invalid username/password'' 400)))"
  unfolding authenticate_def Let_def select_where
  by (simp add: rows0_map_filter split: option.splits)




text \<open>
  The same holds of every password that is not a string.
\<close>

lemma authenticate_not_a_string:
  assumes "\<forall>p. pw \<noteq> JStr p"
  shows "authenticate E s uname pw =
           (if uname \<in> set (map username (users s))
            then Inl (LibraryError (if pw = JUndefined \<or> pw = JNull
                                    then ''data and hash arguments required''
                                    else ''data and hash must be strings''))
            else Inl (ExpressError ''Invalid username/password'' 400))"
proof (cases "find (\<lambda>u. username u = uname) (users s)")
  case None
  then have "uname \<notin> set (map username (users s))"
    using find_username_None [of uname "users s"] by simp
  with None show ?thesis
    by (simp add: authenticate_find)
next
  case (Some r)
  then have "uname \<in> set (map username (users s))"
    using find_username_None [of uname "users s"] by simp
  with Some assms show ?thesis
    by (cases pw) (simp_all add: authenticate_find bcrypt_compare_promise_def)
qed

section \<open>The login timestamp\<close>

text \<open>
  Claim C6, as amended. For an existing user, \<open>updateLoginTimestamp\<close> succeeds and the
  stored \<open>last_login_at\<close>, read back with \<open>get\<close>, is the reading of the store's clock
  at the call; after a second call it is the reading at that second call. So the stored
  value moves from one call to the next exactly as the clock does, and grows strictly
  when the clock has advanced. For a name with no user the call fails with
  \<open>ExpressError "There is no user with username: ..." 404\<close> and the store is unchanged.
\<close>

theorem updateLoginTimestamp_sets_clock_reading:
  "(uname \<in> set (map username (users s)) \<longrightarrow>
      (\<exists>s1 s2 o1 o2.
         updateLoginTimestamp t1 s uname = (Inr (), s1) \<and>
         get s1 uname = Inr o1 \<and> field o1 ''last_login_at'' = JDate t1 \<and>
         updateLoginTimestamp t2 s1 uname = (Inr (), s2) \<and>
         get s2 uname = Inr o2 \<and> field o2 ''last_login_at'' = JDate t2)) \<and>
   (uname \<notin> set (map username (users s)) \<longrightarrow>
      updateLoginTimestamp t s uname =
        (Inl (ExpressError (''There is no user with username: '' @ uname) 404), s))"
proof (intro conjI impI)
  assume a: "uname \<in> set (map username (users s))"
  let ?upd = "\<lambda>t (u::user_row). if username u = uname then u\<lparr>last_login_at := Some t\<rparr> else u"
  obtain r where r: "find (\<lambda>u. username u = uname) (users s) = Some r"
    using a find_username_None [of uname "users s"]
    by (cases "find (\<lambda>u. username u = uname) (users s)") auto
  let ?s1 = "s\<lparr>users := map (?upd t1) (users s)\<rparr>"
  let ?s2 = "?s1\<lparr>users := map (?upd t2) (users ?s1)\<rparr>"
  have f1: "find (\<lambda>u. username u = uname) (users ?s1) = Some (r\<lparr>last_login_at := Some t1\<rparr>)"
    using r by (simp add: find_after_update)
  have f2: "find (\<lambda>u. username u = uname) (users ?s2) = Some (r\<lparr>last_login_at := Some t2\<rparr>)"
    using f1 find_after_update [of uname t2 "users ?s1"] by simp
  have u1: "updateLoginTimestamp t1 s uname = (Inr (), ?s1)"
    using r by (simp add: updateLoginTimestamp_find)
  have u2: "updateLoginTimestamp t2 ?s1 uname = (Inr (), ?s2)"
    using f1 updateLoginTimestamp_find [of t2 ?s1 uname] by simp
  have g1: "\<exists>o1. get ?s1 uname = Inr o1 \<and> field o1 ''last_login_at'' = JDate t1"
    using f1 get_find [of ?s1 uname] by simp
  have g2: "\<exists>o2. get ?s2 uname = Inr o2 \<and> field o2 ''last_login_at'' = JDate t2"
    using f2 get_find [of ?s2 uname] by simp
  from u1 u2 g1 g2
  show "\<exists>s1 s2 o1 o2.
         updateLoginTimestamp t1 s uname = (Inr (), s1) \<and>
         get s1 uname = Inr o1 \<and> field o1 ''last_login_at'' = JDate t1 \<and>
         updateLoginTimestamp t2 s1 uname = (Inr (), s2) \<and>
         get s2 uname = Inr o2 \<and> field o2 ''last_login_at'' = JDate t2"
    by blast
next
  assume "uname \<notin> set (map username (users s))"
  then have "find (\<lambda>u. username u = uname) (users s) = None"
    by (simp add: find_username_None)
  then show "updateLoginTimestamp t s uname =
        (Inl (ExpressError (''There is no user with username: '' @ uname) 404), s)"
    by (simp add: updateLoginTimestamp_find)
qed

text \<open>
  The same on the sample store, at the readings 500 and 600, and for a name that has no
  user.
\<close>

theorem updateLoginTimestamp_sets_clock_reading_witness:
  "(\<exists>s1 s2 o1 o2.
      updateLoginTimestamp 500 sample_db ''bob'' = (Inr (), s1) \<and>
      get s1 ''bob'' = Inr o1 \<and> field o1 ''last_login_at'' = JDate 500 \<and>
      updateLoginTimestamp 600 s1 ''bob'' = (Inr (), s2) \<and>
      get s2 ''bob'' = Inr o2 \<and> field o2 ''last_login_at'' = JDate 600) \<and>
   updateLoginTimestamp 500 sample_db ''dave'' =
     (Inl (ExpressError ''There is no user with username: dave'' 404), sample_db)"
  using updateLoginTimestamp_sets_clock_reading [of "''bob''" sample_db 500 600 0]
    updateLoginTimestamp_sets_clock_reading [of "''dave''" sample_db 0 0 500]
  by (simp add: sample_db_def alice_def bob_def carol_def)

text \<open>
  Claim C6 as it was stated, with a strict increase on each successive call, fails. Two
  successive calls for bob that both read 500 from the clock both succeed, and
  \<open>last_login_at\<close> is 500 after the first and still 500 after the second.
\<close>

theorem updateLoginTimestamp_same_reading_counterexample:
  "fst (updateLoginTimestamp 500 sample_db ''bob'') = Inr () \<and>
   get (snd (updateLoginTimestamp 500 sample_db ''bob'')) ''bob'' =
     Inr (JObj [(''username'', JStr ''bob''), (''first_name'', JStr ''Bob''),
                (''last_name'', JStr ''Brown''), (''phone'', JStr ''+14150000002''),
                (''join_at'', JDate 200), (''last_login_at'', JDate 500)]) \<and>
   fst (updateLoginTimestamp 500 (snd (updateLoginTimestamp 500 sample_db ''bob'')) ''bob'') =
     Inr () \<and>
   get (snd (updateLoginTimestamp 500 (snd (updateLoginTimestamp 500 sample_db ''bob'')) ''bob''))
       ''bob'' =
     Inr (JObj [(''username'', JStr ''bob''), (''first_name'', JStr ''Bob''),
                (''last_name'', JStr ''Brown''), (''phone'', JStr ''+14150000002''),
                (''join_at'', JDate 200), (''last_login_at'', JDate 500)])"
  by (simp add: updateLoginTimestamp_find get_find sample_db_def alice_def bob_def carol_def)

section \<open>The primary key is kept\<close>

text \<open>
  The empty store has unique usernames, and the two methods that write to \<open>users\<close>
  keep them unique.
\<close>

lemma register_cases:
  "register E t s b =
     (if username b \<in> set (map username (users s))
      then (Inl (UniqueViolation ''users_pkey''), s)
      else (Inr (JObj [(''username'', JStr (username b))]),
            s\<lparr>users := users s @
               [\<lparr>username = username b,
                 password = bcrypt_hash E (password b) (BCRYPT_WORK_FACTOR E),
                 first_name = first_name b, last_name = last_name b, phone = phone b,
                 join_at = t, last_login_at = None\<rparr>]\<rparr>))"
  by (simp add: register_def insert_user_def Let_def)

lemma users_pk_empty_db: "users_pk empty_db"
  by (simp add: users_pk_def empty_db_def)

lemma users_pk_register: "users_pk s \<Longrightarrow> users_pk (snd (register E t s b))"
  by (simp add: register_cases users_pk_def)

lemma usernames_after_update:
  "map username (map (\<lambda>u. if username u = uname then u\<lparr>last_login_at := Some t\<rparr> else u) xs)
   = map username xs"
  by (induction xs) simp_all

lemma users_pk_updateLoginTimestamp:
  "users_pk s \<Longrightarrow> users_pk (snd (updateLoginTimestamp t s uname))"
proof -
  have "users (snd (updateLoginTimestamp t s uname)) =
          map (\<lambda>u. if username u = uname then u\<lparr>last_login_at := Some t\<rparr> else u) (users s)"
    by (simp add: updateLoginTimestamp_find update_no_match find_username_None
          split: option.splits)
  then show "users_pk s \<Longrightarrow> users_pk (snd (updateLoginTimestamp t s uname))"
    by (simp only: users_pk_def usernames_after_update)
qed

section \<open>Listing the users\<close>

lemma sort_key_project:
  "map f (sort_key f xs) = sort (map f xs)"
  by (rule sym, rule properties_for_sort) simp_all

text \<open>
  Claim C7. \<open>all\<close> returns one record per user and covers all users: as a multiset,
  its result is the image of the table under the projection to \<open>first_name\<close>,
  \<open>last_name\<close> and \<open>phone\<close>. The first names appear in ascending order. Every
  record has exactly these three keys, so reading \<open>password\<close> from it gives
  \<open>undefined\<close>: the hash is never returned.
\<close>

theorem all_users_sorted_public:
  "mset (all_users s) =
     image_mset (\<lambda>u. JObj [(''first_name'', JStr (first_name u)),
                            (''last_name'', JStr (last_name u)),
                            (''phone'', JStr (phone u))]) (mset (users s)) \<and>
   length (all_users s) = length (users s) \<and>
   map (\<lambda>r. field r ''first_name'') (all_users s) = map JStr (sort (map first_name (users s))) \<and>
   (\<forall>r\<in>set (all_users s).
      \<exists>f l p. r = JObj [(''first_name'', JStr f), (''last_name'', JStr l), (''phone'', JStr p)]) \<and>
   (\<forall>r\<in>set (all_users s). field r ''password'' = JUndefined)"
proof -
  let ?row = "\<lambda>u::user_row. JObj [(''first_name'', JStr (first_name u)),
                            (''last_name'', JStr (last_name u)),
                            (''phone'', JStr (phone u))]"
  have def: "all_users s = map ?row (sort_key first_name (users s))"
    by (simp add: all_users_def)
  have 1: "mset (all_users s) = image_mset ?row (mset (users s))"
    by (simp add: def)
  have 2: "length (all_users s) = length (users s)"
    by (simp add: def)
  have "map (\<lambda>r. field r ''first_name'') (all_users s)
        = map JStr (map first_name (sort_key first_name (users s)))"
    by (simp add: def)
  then have 3: "map (\<lambda>r. field r ''first_name'') (all_users s)
        = map JStr (sort (map first_name (users s)))"
    by (simp only: sort_key_project)
  have 4: "\<forall>r\<in>set (all_users s).
      \<exists>f l p. r = JObj [(''first_name'', JStr f), (''last_name'', JStr l), (''phone'', JStr p)]"
    by (auto simp: def)
  have 5: "\<forall>r\<in>set (all_users s). field r ''password'' = JUndefined"
    by (auto simp: def)
  from 1 2 3 4 5 show ?thesis by blast
qed

text \<open>
  The sample store lists carol, alice, bob in table order; \<open>all\<close> returns them as
  Alice, Bob, Carol.
\<close>

theorem all_users_sorted_public_witness:
  "all_users sample_db =
     [JObj [(''first_name'', JStr ''Alice''), (''last_name'', JStr ''Adams''),
            (''phone'', JStr ''+14150000001'')],
      JObj [(''first_name'', JStr ''Bob''), (''last_name'', JStr ''Brown''),
            (''phone'', JStr ''+14150000002'')],
      JObj [(''first_name'', JStr ''Carol''), (''last_name'', JStr ''Clark''),
            (''phone'', JStr ''+14150000003'')]] \<and>
   map (\<lambda>r. field r ''first_name'') (all_users sample_db) =
     map JStr (sort (map first_name (users sample_db))) \<and>
   map (\<lambda>r. field r ''password'') (all_users sample_db) = [JUndefined, JUndefined, JUndefined]"
  using all_users_sorted_public [of sample_db]
  by (simp add: all_users_def sample_db_def alice_def bob_def carol_def)

section \<open>Registration\<close>

text \<open>
  Claim C8. When the username is not yet taken, \<open>register\<close> succeeds and returns
  \<open>{username}\<close>; \<open>get\<close> on the resulting store then returns the profile with the
  registered fields, \<open>join_at\<close> the clock reading of the call and \<open>last_login_at\<close>
  null. A second \<open>register\<close> with the same username, whatever its other fields, fails
  with the store's uniqueness violation, which the method passes on uncaught, and leaves
  the store as it was.
\<close>

theorem register_get_conflict:
  assumes "username b \<notin> set (map username (users s))"
    and "username b' = username b"
  shows "\<exists>s1. register E t s b = (Inr (JObj [(''username'', JStr (username b))]), s1) \<and>
           get s1 (username b) =
             Inr (JObj [(''username'', JStr (username b)),
                        (''first_name'', JStr (first_name b)),
                        (''last_name'', JStr (last_name b)),
                        (''phone'', JStr (phone b)),
                        (''join_at'', JDate t),
                        (''last_login_at'', JNull)]) \<and>
           register E' t' s1 b' = (Inl (UniqueViolation ''users_pkey''), s1)"
proof -
  let ?r = "\<lparr>username = username b,
             password = bcrypt_hash E (password b) (BCRYPT_WORK_FACTOR E),
             first_name = first_name b, last_name = last_name b, phone = phone b,
             join_at = t, last_login_at = None\<rparr>"
  let ?s1 = "s\<lparr>users := users s @ [?r]\<rparr>"
  have 1: "register E t s b = (Inr (JObj [(''username'', JStr (username b))]), ?s1)"
    using assms(1) by (simp add: register_cases)
  have "find (\<lambda>u. username u = username b) (users ?s1) = Some ?r"
    using assms(1) find_append_new [of "username b" "users s" ?r] by simp
  then have 2: "get ?s1 (username b) =
             Inr (JObj [(''username'', JStr (username b)),
                        (''first_name'', JStr (first_name b)),
                        (''last_name'', JStr (last_name b)),
                        (''phone'', JStr (phone b)),
                        (''join_at'', JDate t),
                        (''last_login_at'', JNull)])"
    by (simp add: get_find)
  have 3: "register E' t' ?s1 b' = (Inl (UniqueViolation ''users_pkey''), ?s1)"
    using assms(2) by (simp add: register_cases)
  from 1 2 3 show ?thesis by blast
qed

text \<open>
  Registering dave on the sample store, reading him back, and registering him again.
\<close>

theorem register_get_conflict_witness:
  "username new_dave \<notin> set (map username (users sample_db)) \<and>
   (\<exists>s1. register sample_env 500 sample_db new_dave = (Inr (JObj [(''username'', JStr ''dave'')]), s1) \<and>
         get s1 ''dave'' =
           Inr (JObj [(''username'', JStr ''dave''), (''first_name'', JStr ''Dave''),
                      (''last_name'', JStr ''Dunn''), (''phone'', JStr ''+14150000004''),
                      (''join_at'', JDate 500), (''last_login_at'', JNull)]) \<and>
         register sample_env 600 s1 new_dave = (Inl (UniqueViolation ''users_pkey''), s1))"
proof -
  have h: "username new_dave \<notin> set (map username (users sample_db))"
    by (simp add: new_dave_def sample_db_def alice_def bob_def carol_def)
  from h register_get_conflict [OF h refl, of sample_env 500 sample_env 600]
  show ?thesis by (simp add: new_dave_def)
qed

section \<open>Messages of a user\<close>

text \<open>
  A join whose WHERE clause no message satisfies has no rows.
\<close>

lemma concat_map_Nil: "concat (map (\<lambda>u. []) us) = []"
  apply (induction us)
   apply (simp only: list.map concat.simps)
  apply (simp only: list.map concat.simps append_Nil)
  done

lemma where_false_empty:
  "\<not> p \<Longrightarrow> concat (map (\<lambda>u. if q u then if p then [g u] else [] else []) us) = []"
  by (simp only: if_False if_cancel concat_map_Nil)

lemma join_where_empty:
  "\<forall>m\<in>set ms. \<not> P m \<Longrightarrow>
   concat (map (\<lambda>m. concat (map (\<lambda>u. if Q m u then if P m then [f m u] else [] else []) us)) ms)
   = []"
proof (induction ms)
  case Nil
  show ?case by (simp only: list.map concat.simps)
next
  case (Cons m ms)
  from Cons.prems have "\<not> P m" by (metis list.set_intros(1))
  then have 1: "concat (map (\<lambda>u. if Q m u then if P m then [f m u] else [] else []) us) = []"
    by (rule where_false_empty)
  from Cons.prems have "\<forall>m\<in>set ms. \<not> P m"
    by (metis list.set_intros(2))
  then have 2: "concat (map (\<lambda>m. concat (map (\<lambda>u. if Q m u then if P m then [f m u] else [] else []) us)) ms)
   = []" by (rule Cons.IH)
  show ?case
    by (simp only: list.map concat.simps 1 2 append_Nil)
qed

text \<open>
  Claim C9. When no message has the given user as sender, \<open>messagesFrom\<close> does not
  return an empty result: it fails with \<open>ExpressError "There are no messages from ..." 404\<close>.
  When no message has the user as recipient, \<open>messagesTo\<close> fails with
  \<open>ExpressError "There are no messages to user with username: ..." 404\<close>.
\<close>

theorem messages_none_404:
  "((\<forall>m\<in>set (messages s). from_username m \<noteq> uname) \<longrightarrow>
      messagesFrom s uname = Inl (ExpressError (''There are no messages from '' @ uname) 404)) \<and>
   ((\<forall>m\<in>set (messages s). to_username m \<noteq> uname) \<longrightarrow>
      messagesTo s uname =
        Inl (ExpressError (''There are no messages to user with username: '' @ uname) 404))"
proof (intro conjI impI)
  assume "\<forall>m\<in>set (messages s). from_username m \<noteq> uname"
  then have a: "\<forall>m\<in>set (messages s). \<not> from_username m = uname"
    by simp
  show "messagesFrom s uname =
      Inl (ExpressError (''There are no messages from '' @ uname) 404)"
    unfolding messagesFrom_def Let_def join_where_empty [OF a] by simp
next
  assume "\<forall>m\<in>set (messages s). to_username m \<noteq> uname"
  then have a: "\<forall>m\<in>set (messages s). \<not> to_username m = uname"
    by simp
  show "messagesTo s uname =
      Inl (ExpressError (''There are no messages to user with username: '' @ uname) 404)"
    unfolding messagesTo_def Let_def join_where_empty [OF a] by simp
qed

text \<open>
  On the sample store bob has sent nothing and alice has received nothing.
\<close>

theorem messages_none_404_witness:
  "map from_username (messages sample_db) = [''alice''] \<and>
   messagesFrom sample_db ''bob'' = Inl (ExpressError ''There are no messages from bob'' 404) \<and>
   map to_username (messages sample_db) = [''bob''] \<and>
   messagesTo sample_db ''alice'' =
     Inl (ExpressError ''There are no messages to user with username: alice'' 404)"
proof -
  have f: "\<forall>m\<in>set (messages sample_db). from_username m \<noteq> ''bob''"
    by (simp add: sample_db_def hello_def)
  have t: "\<forall>m\<in>set (messages sample_db). to_username m \<noteq> ''alice''"
    by (simp add: sample_db_def hello_def)
  have m: "map from_username (messages sample_db) = [''alice'']"
    "map to_username (messages sample_db) = [''bob'']"
    by (simp_all add: sample_db_def hello_def)
  from f t m messages_none_404 [of sample_db "''bob''"] messages_none_404 [of sample_db "''alice''"]
  show ?thesis by simp
qed

text \<open>
  The first row of a join is the row built from some message and some user that satisfy
  the ON and WHERE clauses.
\<close>

lemma rows0_where:
  "truthy (rows0 (concat (map (\<lambda>u. if Q u then if p then [JObj (g u)] else [] else []) us))) \<Longrightarrow>
   p \<and> (\<exists>u\<in>set us. Q u \<and>
      rows0 (concat (map (\<lambda>u. if Q u then if p then [JObj (g u)] else [] else []) us)) = JObj (g u))"
proof (induction us)
  case Nil
  then show ?case by simp
next
  case (Cons a us)
  show ?case
  proof (cases "Q a \<and> p")
    case True
    then show ?thesis by simp
  next
    case False
    then have "concat (map (\<lambda>u. if Q u then if p then [JObj (g u)] else [] else []) (a # us))
         = concat (map (\<lambda>u. if Q u then if p then [JObj (g u)] else [] else []) us)"
      by auto
    with Cons show ?thesis by auto
  qed
qed

lemma rows0_concat:
  "truthy (rows0 (concat xss)) \<Longrightarrow> \<exists>xs\<in>set xss. rows0 (concat xss) = rows0 xs"
proof (induction xss)
  case Nil
  then show ?case by simp
next
  case (Cons xs xss)
  then show ?case by (cases xs) auto
qed

lemma rows0_join:
  assumes "truthy (rows0 (concat (map (\<lambda>m. concat (map (\<lambda>u.
              if Q m u then if P m then [JObj (g m u)] else [] else []) us)) ms)))"
  shows "\<exists>m\<in>set ms. \<exists>u\<in>set us. Q m u \<and> P m \<and>
           rows0 (concat (map (\<lambda>m. concat (map (\<lambda>u.
              if Q m u then if P m then [JObj (g m u)] else [] else []) us)) ms)) = JObj (g m u)"
proof -
  define inner where
    "inner = (\<lambda>m. concat (map (\<lambda>u. if Q m u then if P m then [JObj (g m u)] else [] else []) us))"
  have t: "truthy (rows0 (concat (map inner ms)))"
    using assms by (simp only: inner_def)
  from rows0_concat [OF t]
  obtain xs where xs: "xs \<in> set (map inner ms)" "rows0 (concat (map inner ms)) = rows0 xs"
    by blast
  from xs(1) have "xs \<in> inner ` set ms"
    by (simp only: set_map)
  then obtain m where m: "m \<in> set ms" "xs = inner m"
    by (rule imageE)
  from t have "truthy (rows0 (inner m))"
    by (simp only: xs(2) m(2))
  then have "truthy (rows0 (concat (map (\<lambda>u.
      if Q m u then if P m then [JObj (g m u)] else [] else []) us)))"
    by (simp only: inner_def)
  from rows0_where [OF this]
  obtain u where u: "P m" "u \<in> set us" "Q m u" "rows0 (inner m) = JObj (g m u)"
    unfolding inner_def by blast
  have "rows0 (concat (map inner ms)) = JObj (g m u)"
    by (simp only: xs(2) m(2) u(4))
  then have r: "rows0 (concat (map (\<lambda>m. concat (map (\<lambda>u.
              if Q m u then if P m then [JObj (g m u)] else [] else []) us)) ms)) = JObj (g m u)"
    by (simp only: inner_def)
  show ?thesis
  proof (rule bexI [OF _ m(1)], rule bexI [OF _ u(2)], intro conjI)
    show "Q m u" by (rule u(3))
    show "P m" by (rule u(1))
    show "rows0 (concat (map (\<lambda>m. concat (map (\<lambda>u.
              if Q m u then if P m then [JObj (g m u)] else [] else []) us)) ms)) = JObj (g m u)"
      by (rule r)
  qed
qed

text \<open>
  Whenever \<open>messagesFrom\<close> returns a record, the profile in it is stored under
  \<open>from_user\<close> and carries the queried username itself; the record has no \<open>to_user\<close>.
\<close>

lemma messagesFrom_own_profile:
  assumes "messagesFrom s uname = Inr obj"
  shows "field (field obj ''from_user'') ''username'' = JStr uname \<and>
         field obj ''to_user'' = JUndefined"
proof -
  define g where "g = (\<lambda>(m::message_row) (u::user_row). [(''id'', JNum (msg_id m)),
                          (''from_username'', JStr (from_username m)),
                          (''from_first_name'', JStr (first_name u)),
                          (''from_last_name'', JStr (last_name u)),
                          (''from_phone'', JStr (phone u)),
                          (''body'', JStr (body m)),
                          (''sent_at'', JDate (sent_at m)),
                          (''read_at'', js_timestamp (read_at m))])"
  define rows where "rows = concat (map (\<lambda>m. concat (map (\<lambda>u.
              if from_username m = username u then if from_username m = uname
              then [JObj (g m u)] else [] else []) (users s))) (messages s))"
  have mf: "messagesFrom s uname =
     (if \<not> truthy (rows0 rows)
      then Inl (ExpressError (''There are no messages from '' @ uname) 404)
      else Inr (JObj [(''id'', field (rows0 rows) ''id''),
                      (''from_user'', JObj [(''username'', field (rows0 rows) ''from_username''),
                                           (''first_name'', field (rows0 rows) ''from_first_name''),
                                           (''last_name'', field (rows0 rows) ''from_last_name''),
                                           (''phone'', field (rows0 rows) ''from_phone'')]),
                      (''body'', field (rows0 rows) ''body''),
                      (''sent_at'', field (rows0 rows) ''sent_at''),
                      (''read_at'', field (rows0 rows) ''read_at'')]))"
    by (simp only: messagesFrom_def Let_def rows_def g_def)
  have t: "truthy (rows0 rows)"
    using assms mf by (auto split: if_splits)
  then have "truthy (rows0 (concat (map (\<lambda>m. concat (map (\<lambda>u.
              if from_username m = username u then if from_username m = uname
              then [JObj (g m u)] else [] else []) (users s))) (messages s))))"
    by (simp only: rows_def)
  from rows0_join [OF this] obtain m u where
    mu: "from_username m = uname" "rows0 rows = JObj (g m u)"
    unfolding rows_def by blast
  have "field (rows0 rows) ''from_username'' = JStr uname"
    by (simp add: mu g_def)
  with t assms mf show ?thesis
    by auto
qed

text \<open>
  Claim C5. The claim is that \<open>messagesFrom\<close> returns a message expanded with the
  recipient's profile and \<open>messagesTo\<close> one expanded with the sender's profile. On the
  sample store, where the only message goes from alice to bob, the methods return
  something else: \<open>messagesFrom "alice"\<close> carries alice's own profile under
  \<open>from_user\<close> and nothing about bob, and \<open>messagesTo "bob"\<close> carries bob's own
  profile under \<open>to_user\<close>, with \<open>phone\<close> undefined, and nothing about alice.
\<close>

theorem messages_expand_own_profile:
  "messagesFrom sample_db ''alice'' =
     Inr (JObj [(''id'', JNum 1),
                (''from_user'', JObj [(''username'', JStr ''alice''),
                                     (''first_name'', JStr ''Alice''),
                                     (''last_name'', JStr ''Adams''),
                                     (''phone'', JStr ''+14150000001'')]),
                (''body'', JStr ''hello''),
                (''sent_at'', JDate 400),
                (''read_at'', JNull)]) \<and>
   messagesTo sample_db ''bob'' =
     Inr (JObj [(''id'', JNum 1),
                (''to_user'', JObj [(''username'', JStr ''bob''),
                                   (''first_name'', JStr ''Bob''),
                                   (''last_name'', JStr ''Brown''),
                                   (''phone'', JUndefined)]),
                (''body'', JStr ''hello''),
                (''sent_at'', JDate 400),
                (''read_at'', JNull)])"
  by (simp add: messagesFrom_def messagesTo_def sample_db_def hello_def
        alice_def bob_def carol_def)

section \<open>The message routes\<close>

text \<open>
  The handler of \<open>GET /:id\<close> never reads the principal of the request.
\<close>

lemma route_get_id_ignores_principal:
  "route_get_id s (req\<lparr>user_username := p\<rparr>) = route_get_id s req"
  by (simp add: route_get_id_def)

text \<open>
  Claim C1. The claim is that a principal who is neither sender nor recipient of
  the message is refused. On the sample store carol is neither the sender nor the
  recipient of message 1, and her request \<open>GET /messages/1\<close> is answered with the whole
  message.
\<close>

theorem route_get_id_outsider:
  "''carol'' \<noteq> from_username hello \<and> ''carol'' \<noteq> to_username hello \<and>
   route_get_id sample_db \<lparr>params_id = 1, user_username = ''carol''\<rparr> =
     ResJson (JObj [(''message'',
       JObj [(''id'', JNum 1),
             (''from_user'', JObj [(''username'', JStr ''alice''),
                                  (''first_name'', JStr ''Alice''),
                                  (''last_name'', JStr ''Adams''),
                                  (''phone'', JStr ''+14150000001'')]),
             (''to_user'', JObj [(''username'', JStr ''bob''),
                                (''first_name'', JStr ''Bob''),
                                (''last_name'', JStr ''Brown''),
                                (''phone'', JStr ''+14150000002'')]),
             (''body'', JStr ''hello''),
             (''sent_at'', JDate 400),
             (''read_at'', JNull)])])"
  by (simp add: route_get_id_def Message_get_def sample_db_def hello_def
        alice_def bob_def carol_def)

text \<open>
  Claim C3. The claim is that \<open>POST /messages/:id/read\<close> by the recipient sets
  \<open>read_at\<close> and answers \<open>{message: {id, read_at}}\<close>. On the sample store bob is
  the recipient of message 1; his request gets no answer at all, the store is unchanged
  and \<open>read_at\<close> of the message stays null.
\<close>

theorem route_post_id_read_stub:
  "to_username hello = ''bob'' \<and>
   route_post_id_read sample_db \<lparr>params_id = 1, user_username = ''bob''\<rparr> =
     (NoResponse, sample_db) \<and>
   map read_at (messages sample_db) = [None]"
  by (simp add: route_post_id_read_def sample_db_def hello_def)

section \<open>The registration route\<close>

text \<open>
  Claim C2. The claim is that \<open>POST /register\<close> with a username not yet taken
  persists the user and answers \<open>{token}\<close>. On the empty store, with no global
  \<open>username\<close>, the request for dave persists the user and is then answered with a
  ReferenceError: no token is returned.
\<close>

theorem route_post_register_throws:
  "username new_dave \<notin> set (map username (users empty_db)) \<and>
   route_post_register sample_env 500 501 empty_db new_dave =
     (NextErr (ReferenceError ''username is not defined''),
      \<lparr>users = [\<lparr>username = ''dave'', password = ''$2b$pw'', first_name = ''Dave'',
                 last_name = ''Dunn'', phone = ''+14150000004'', join_at = 500,
                 last_login_at = None\<rparr>], messages = []\<rparr>)"
  by (simp add: route_post_register_def register_cases sample_env_def empty_db_def new_dave_def)

text \<open>
  This does not depend on the request: as long as the global object has no property
  \<open>username\<close>, the handler never answers with a token.
\<close>

lemma route_post_register_never_token:
  assumes "globalThis E ''username'' = None"
  shows "fst (route_post_register E t1 t2 s b) \<noteq> ResJson v"
  using assms
  by (simp add: route_post_register_def register_cases)

text \<open>
  Once \<open>User.register\<close> has succeeded, the UPDATE of the login timestamp finds the
  new row: when the token is signed, the handler answers with it.
\<close>

lemma route_post_register_token:
  assumes "register E t1 s b = (Inr result, s1)"
    and "globalThis E ''username'' = Some v"
    and "jwt_sign E (JObj [(''username'', v)]) (SECRET_KEY E) = Inr token"
  shows "fst (updateLoginTimestamp t2 s1 (username b)) = Inr () \<and>
         route_post_register E t1 t2 s b =
           (ResJson (JObj [(''token'', JStr token)]),
            snd (updateLoginTimestamp t2 s1 (username b)))"
proof -
  let ?r = "\<lparr>username = username b,
             password = bcrypt_hash E (password b) (BCRYPT_WORK_FACTOR E),
             first_name = first_name b, last_name = last_name b, phone = phone b,
             join_at = t1, last_login_at = None\<rparr>"
  have new: "username b \<notin> set (map username (users s))"
    using assms(1) by (auto simp: register_cases split: if_splits)
  then have res: "result = JObj [(''username'', JStr (username b))]"
    and s1: "s1 = s\<lparr>users := users s @ [?r]\<rparr>"
    using assms(1) by (simp_all add: register_cases)
  have found: "find (\<lambda>u. username u = username b) (users s1) = Some ?r"
    using new find_append_new [of "username b" "users s" ?r] by (simp add: s1)
  then have upd: "fst (updateLoginTimestamp t2 s1 (username b)) = Inr ()"
    by (simp add: updateLoginTimestamp_find)
  then have "route_post_register E t1 t2 s b =
           (ResJson (JObj [(''token'', JStr token)]),
            snd (updateLoginTimestamp t2 s1 (username b)))"
    using assms unfolding route_post_register_def res
    by (auto split: prod.splits sum.splits)
  with upd show ?thesis by simp
qed

text \<open>
  Claim C10. When \<open>User.register\<close> has succeeded and the signing of the token then
  throws, be it the ReferenceError for the undeclared \<open>username\<close> or an error of
  \<open>jwt.sign\<close> itself, the handler answers with that error and the store it leaves is
  exactly the one \<open>register\<close> left: the username was new, and the created user is
  still there and can be read with \<open>get\<close>. Nothing is rolled back.
\<close>

theorem register_route_no_rollback:
  assumes "register E t1 s b = (Inr result, s1)"
  shows "(globalThis E ''username'' = None \<longrightarrow>
            route_post_register E t1 t2 s b =
              (NextErr (ReferenceError ''username is not defined''), s1)) \<and>
         (globalThis E ''username'' = Some v \<and>
          jwt_sign E (JObj [(''username'', v)]) (SECRET_KEY E) = Inl err \<longrightarrow>
            route_post_register E t1 t2 s b = (NextErr err, s1)) \<and>
         username b \<notin> set (map username (users s)) \<and>
         (\<exists>obj. get s1 (username b) = Inr obj \<and> field obj ''username'' = JStr (username b))"
proof -
  let ?r = "\<lparr>username = username b,
             password = bcrypt_hash E (password b) (BCRYPT_WORK_FACTOR E),
             first_name = first_name b, last_name = last_name b, phone = phone b,
             join_at = t1, last_login_at = None\<rparr>"
  have new: "username b \<notin> set (map username (users s))"
    using assms by (auto simp: register_cases split: if_splits)
  then have s1: "s1 = s\<lparr>users := users s @ [?r]\<rparr>"
    using assms by (simp add: register_cases)
  have found: "find (\<lambda>u. username u = username b) (users s1) = Some ?r"
    using new find_append_new [of "username b" "users s" ?r] by (simp add: s1)
  then have g: "\<exists>obj. get s1 (username b) = Inr obj \<and> field obj ''username'' = JStr (username b)"
    by (simp add: get_find)
  have 1: "globalThis E ''username'' = None \<longrightarrow>
            route_post_register E t1 t2 s b =
              (NextErr (ReferenceError ''username is not defined''), s1)"
    using assms by (simp add: route_post_register_def)
  have 2: "globalThis E ''username'' = Some v \<and>
          jwt_sign E (JObj [(''username'', v)]) (SECRET_KEY E) = Inl err \<longrightarrow>
            route_post_register E t1 t2 s b = (NextErr err, s1)"
    using assms by (simp add: route_post_register_def)
  from 1 2 new g show ?thesis by blast
qed

text \<open>
  The request for dave on the empty store, once in a process without a global
  \<open>username\<close> and once in a process where the token library refuses to sign: each
  time \<open>register\<close> succeeds, the handler answers with the error, and dave stays in the
  store.
\<close>

theorem register_route_no_rollback_witness:
  "register sample_env 500 empty_db new_dave =
     (Inr (JObj [(''username'', JStr ''dave'')]),
      \<lparr>users = [\<lparr>username = ''dave'', password = ''$2b$pw'', first_name = ''Dave'',
                 last_name = ''Dunn'', phone = ''+14150000004'', join_at = 500,
                 last_login_at = None\<rparr>], messages = []\<rparr>) \<and>
   globalThis sample_env ''username'' = None \<and>
   route_post_register sample_env 500 501 empty_db new_dave =
     (NextErr (ReferenceError ''username is not defined''),
      \<lparr>users = [\<lparr>username = ''dave'', password = ''$2b$pw'', first_name = ''Dave'',
                 last_name = ''Dunn'', phone = ''+14150000004'', join_at = 500,
                 last_login_at = None\<rparr>], messages = []\<rparr>) \<and>
   register failing_sign_env 500 empty_db new_dave =
     (Inr (JObj [(''username'', JStr ''dave'')]),
      \<lparr>users = [\<lparr>username = ''dave'', password = ''$2b$pw'', first_name = ''Dave'',
                 last_name = ''Dunn'', phone = ''+14150000004'', join_at = 500,
                 last_login_at = None\<rparr>], messages = []\<rparr>) \<and>
   globalThis failing_sign_env ''username'' = Some (JStr ''mallory'') \<and>
   jwt_sign failing_sign_env (JObj [(''username'', JStr ''mallory'')]) (SECRET_KEY failing_sign_env) =
     Inl (LibraryError ''secretOrPrivateKey must have a value'') \<and>
   route_post_register failing_sign_env 500 501 empty_db new_dave =
     (NextErr (LibraryError ''secretOrPrivateKey must have a value''),
      \<lparr>users = [\<lparr>username = ''dave'', password = ''$2b$pw'', first_name = ''Dave'',
                 last_name = ''Dunn'', phone = ''+14150000004'', join_at = 500,
                 last_login_at = None\<rparr>], messages = []\<rparr>) \<and>
   (\<exists>obj. get \<lparr>users = [\<lparr>username = ''dave'', password = ''$2b$pw'', first_name = ''Dave'',
                last_name = ''Dunn'', phone = ''+14150000004'', join_at = 500,
                last_login_at = None\<rparr>], messages = []\<rparr> ''dave'' = Inr obj \<and>
          field obj ''username'' = JStr ''dave'')"
proof -
  let ?s1 = "\<lparr>users = [\<lparr>username = ''dave'', password = ''$2b$pw'', first_name = ''Dave'',
                 last_name = ''Dunn'', phone = ''+14150000004'', join_at = 500,
                 last_login_at = None\<rparr>], messages = []\<rparr>"
  have r1: "register sample_env 500 empty_db new_dave =
              (Inr (JObj [(''username'', JStr ''dave'')]), ?s1)"
    by (simp add: register_cases sample_env_def empty_db_def new_dave_def)
  have r2: "register failing_sign_env 500 empty_db new_dave =
              (Inr (JObj [(''username'', JStr ''dave'')]), ?s1)"
    by (simp add: register_cases failing_sign_env_def sample_env_def empty_db_def new_dave_def)
  have g1: "globalThis sample_env ''username'' = None"
    by (simp add: sample_env_def)
  have g2: "globalThis failing_sign_env ''username'' = Some (JStr ''mallory'')"
    "jwt_sign failing_sign_env (JObj [(''username'', JStr ''mallory'')])
       (SECRET_KEY failing_sign_env) = Inl (LibraryError ''secretOrPrivateKey must have a value'')"
    by (simp_all add: failing_sign_env_def)
  from r1 r2 g1 g2
    register_route_no_rollback [OF r1, of 501]
    register_route_no_rollback [OF r2, of 501 "JStr ''mallory''"
      "LibraryError ''secretOrPrivateKey must have a value''"]
  show ?thesis by (simp add: new_dave_def)
qed

end
